theory Spec2Isabelle
  imports Complex_Main
begin

section \<open>Data model (types/diagram.ts)\<close>

text \<open>
  A JavaScript number is a double. The model holds the finite doubles as the rationals
  they denote; NaN and the infinities have no value in it, and the two zeros are one.
  A sum, difference, product or quotient is the exact result rounded to the nearest
  double, ties to even (IEEE 754); comparisons, \<open>Math.min\<close>, \<open>Math.max\<close> and
  \<open>Math.abs\<close> are exact. A literal such as \<open>0.3\<close> is the double nearest to it. Where
  the code would produce Infinity (a result of magnitude \<open>2^1024\<close> or so) the model
  has no value to give: \<open>toDouble\<close> rounds with an unbounded exponent there.
  Node and edge ids are strings. An optional field (\<open>f?: T\<close>) and a nullable one
  (\<open>T | null\<close>) are an \<open>option\<close>.
\<close>

type_synonym number = rat

text \<open>The number of binary digits of a positive integer.\<close>

function bitLength :: "int \<Rightarrow> nat" where
  "bitLength n = (if n \<le> 0 then 0 else Suc (bitLength (n div 2)))"
  by pat_completeness auto
termination
  by (relation "measure nat") auto

declare bitLength.simps [simp del]

definition pow2 :: "int \<Rightarrow> rat" where
  "pow2 e = (if 0 \<le> e then 2 ^ nat e else 1 / 2 ^ nat (- e))"

text \<open>For \<open>q > 0\<close>, the exponent \<open>e\<close> with \<open>2^e \<le> q < 2^(e+1)\<close>.\<close>

definition floorLog2 :: "rat \<Rightarrow> int" where
  "floorLog2 q = (if 1 \<le> q then int (bitLength \<lfloor>q\<rfloor>) - 1
                  else - int (bitLength (\<lceil>1 / q\<rceil> - 1)))"

definition roundHalfEven :: "rat \<Rightarrow> int" where
  "roundHalfEven q =
     (if q - of_int \<lfloor>q\<rfloor> < 1 / 2 then \<lfloor>q\<rfloor>
      else if 1 / 2 < q - of_int \<lfloor>q\<rfloor> then \<lfloor>q\<rfloor> + 1
      else if even \<lfloor>q\<rfloor> then \<lfloor>q\<rfloor> else \<lfloor>q\<rfloor> + 1)"

text \<open>
  Rounding to a double: 53 significant bits, and no bit below \<open>2^-1074\<close> (the
  subnormal numbers).
\<close>

definition toDouble :: "rat \<Rightarrow> number" where
  "toDouble q =
     (if q = 0 then 0
      else of_int (roundHalfEven (q / pow2 (max (floorLog2 \<bar>q\<bar> - 52) (- 1074))))
           * pow2 (max (floorLog2 \<bar>q\<bar> - 52) (- 1074)))"

definition jsAdd :: "number \<Rightarrow> number \<Rightarrow> number" where
  "jsAdd a b = toDouble (a + b)"


definition jsMul :: "number \<Rightarrow> number \<Rightarrow> number" where
  "jsMul a b = toDouble (a * b)"


datatype FontSize = size_xs | size_sm | size_base | size_lg | size_xl
datatype Align = align_left | align_center | align_right
datatype BorderStyle = solid | dashed | dotted
datatype BorderRadius = radius_none | radius_sm | radius_md | radius_lg | radius_full
datatype Shadow = shadow_none | shadow_sm | shadow_md | shadow_lg
datatype EdgeType = straight | smoothstep | step

record TextStyle =
  bold :: bool
  italic :: bool
  underline :: bool
  fontSize :: FontSize
  align :: Align

record BoxStyle =
  borderWidth :: nat
  borderStyle :: BorderStyle
  borderRadius :: BorderRadius
  shadow :: Shadow

record NodeStyle =
  fill :: string
  border :: string
  textColor :: string
  badgeFill :: string
  badgeTextColor :: string

record BadgeConfig =
  offsetX :: number
  offsetY :: number
  badgeWidth :: number
  badgeHeight :: number

record Position =
  pos_x :: number
  pos_y :: number

record DiagramNode =
  nodeId :: string
  parentId :: "string option"
  title :: string
  subtitle :: "string option"
  badge :: "string option"
  badgeConfig :: "BadgeConfig option"
  style :: NodeStyle
  textStyle :: "TextStyle option"
  boxStyle :: "BoxStyle option"
  width :: number
  height :: number
  position :: Position

text \<open>
  The store imports \<open>EdgeStyle\<close> and \<open>DEFAULT_EDGE_STYLE\<close>; their declarations are
  not part of the sources at hand, so the edge style is a type parameter \<open>'es\<close>
  and the default style is passed to \<open>deriveEdges\<close> and its callers as \<open>des\<close>.
\<close>

record 'es DiagramEdge =
  edgeId :: string
  source :: string
  target :: string
  edgeType :: EdgeType
  edgeStyle :: 'es

record Settings =
  name :: string
  createdAt :: string
  updatedAt :: string

record 'es DiagramData =
  schemaVersion :: int
  dataNodes :: "DiagramNode list"
  dataEdges :: "'es DiagramEdge list"
  settings :: Settings

definition DEFAULT_TEXT_STYLE :: TextStyle where
  "DEFAULT_TEXT_STYLE =
     \<lparr>bold = False, italic = False, underline = False, fontSize = size_sm, align = align_center\<rparr>"

definition DEFAULT_BOX_STYLE :: BoxStyle where
  "DEFAULT_BOX_STYLE =
     \<lparr>borderWidth = 2, borderStyle = solid, borderRadius = radius_sm, shadow = shadow_sm\<rparr>"

text \<open>\<open>COLOR_PRESETS[0].style\<close>, the preset called Light Blue.\<close>

definition DEFAULT_NODE_STYLE :: NodeStyle where
  "DEFAULT_NODE_STYLE =
     \<lparr>fill = ''#d4e8f2'', border = ''#333333'', textColor = ''#000000'',
      badgeFill = ''#c0c0c0'', badgeTextColor = ''#333333''\<rparr>"

section \<open>The store (store/diagramStore.ts)\<close>

record 'es HistoryState =
  snapNodes :: "DiagramNode list"
  snapEdges :: "'es DiagramEdge list"

record 'es DiagramStore =
  nodes :: "DiagramNode list"
  edges :: "'es DiagramEdge list"
  selectedNodeId :: "string option"
  selectedNodeIds :: "string list"
  selectedEdgeId :: "string option"
  diagramName :: string
  history :: "'es HistoryState list"
  historyIndex :: int

text \<open>
  An exception leaves the store as it stood when it was thrown; the result of an
  action that can throw is \<open>Inl (error, store)\<close> then, and \<open>Inr store\<close> when it
  returns. \<open>RangeError\<close> is the overflow of the call stack, \<open>TypeError\<close> the read
  of a property of \<open>undefined\<close>.
\<close>

datatype error = RangeError | TypeError

type_synonym 'es outcome = "(error \<times> 'es DiagramStore) + 'es DiagramStore"

definition after :: "'es outcome \<Rightarrow> 'es DiagramStore" where
  "after r = (case r of Inl (e, s) \<Rightarrow> s | Inr s \<Rightarrow> s)"

text \<open>\<open>Partial<DiagramNode>\<close> and \<open>Partial<DiagramEdge>\<close>: a key is present or not.\<close>

record NodeUpdates =
  upd_id :: "string option"
  upd_parentId :: "string option option"
  upd_title :: "string option"
  upd_subtitle :: "string option option"
  upd_badge :: "string option option"
  upd_badgeConfig :: "BadgeConfig option option"
  upd_style :: "NodeStyle option"
  upd_textStyle :: "TextStyle option option"
  upd_boxStyle :: "BoxStyle option option"
  upd_width :: "number option"
  upd_height :: "number option"
  upd_position :: "Position option"

record 'es EdgeUpdates =
  upd_edgeId :: "string option"
  upd_source :: "string option"
  upd_target :: "string option"
  upd_edgeType :: "EdgeType option"
  upd_edgeStyle :: "'es option"

definition orElse :: "'a option \<Rightarrow> 'a \<Rightarrow> 'a" where
  "orElse u v = (case u of None \<Rightarrow> v | Some w \<Rightarrow> w)"

text \<open>The object spread \<open>{ ...n, ...updates }\<close>.\<close>

definition mergeNode :: "DiagramNode \<Rightarrow> NodeUpdates \<Rightarrow> DiagramNode" where
  "mergeNode n u =
     \<lparr>nodeId = orElse (upd_id u) (nodeId n),
      parentId = orElse (upd_parentId u) (parentId n),
      title = orElse (upd_title u) (title n),
      subtitle = orElse (upd_subtitle u) (subtitle n),
      badge = orElse (upd_badge u) (badge n),
      badgeConfig = orElse (upd_badgeConfig u) (badgeConfig n),
      style = orElse (upd_style u) (style n),
      textStyle = orElse (upd_textStyle u) (textStyle n),
      boxStyle = orElse (upd_boxStyle u) (boxStyle n),
      width = orElse (upd_width u) (width n),
      height = orElse (upd_height u) (height n),
      position = orElse (upd_position u) (position n)\<rparr>"

definition mergeEdge :: "'es DiagramEdge \<Rightarrow> 'es EdgeUpdates \<Rightarrow> 'es DiagramEdge" where
  "mergeEdge e u =
     \<lparr>edgeId = orElse (upd_edgeId u) (edgeId e),
      source = orElse (upd_source u) (source e),
      target = orElse (upd_target u) (target e),
      edgeType = orElse (upd_edgeType u) (edgeType e),
      edgeStyle = orElse (upd_edgeStyle u) (edgeStyle e)\<rparr>"

text \<open>The edge that \<open>deriveEdges\<close> builds for a node whose parent is \<open>p\<close>.\<close>

definition edgeOf :: "'es \<Rightarrow> string \<Rightarrow> DiagramNode \<Rightarrow> 'es DiagramEdge" where
  "edgeOf des p n =
     \<lparr>edgeId = ''edge-'' @ p @ ''-'' @ nodeId n,
      source = p, target = nodeId n, edgeType = smoothstep, edgeStyle = des\<rparr>"

definition deriveEdges :: "'es \<Rightarrow> DiagramNode list \<Rightarrow> 'es DiagramEdge list" where
  "deriveEdges des ns =
     map (\<lambda>n. edgeOf des (the (parentId n)) n) (filter (\<lambda>n. parentId n \<noteq> None) ns)"

text \<open>\<open>uuidv4()\<close> is outside the store: the id it returns is the argument \<open>uuid\<close>.\<close>

definition createNode ::
  "string \<Rightarrow> string option \<Rightarrow> string \<Rightarrow> NodeStyle \<Rightarrow> TextStyle \<Rightarrow> BoxStyle \<Rightarrow> DiagramNode" where
  "createNode uuid pid ttl st ts bs =
     \<lparr>nodeId = uuid, parentId = pid, title = ttl, subtitle = Some [], badge = Some [],
      badgeConfig = None, style = st, textStyle = Some ts, boxStyle = Some bs,
      width = 160, height = 80, position = \<lparr>pos_x = 0, pos_y = 0\<rparr>\<rparr>"

definition initialStore :: "'es DiagramStore" where
  "initialStore =
     \<lparr>nodes = [], edges = [], selectedNodeId = None, selectedNodeIds = [],
      selectedEdgeId = None, diagramName = ''Untitled Diagram'',
      history = [], historyIndex = - 1\<rparr>"

definition getNodeById :: "'es DiagramStore \<Rightarrow> string \<Rightarrow> DiagramNode option" where
  "getNodeById s i = find (\<lambda>n. nodeId n = i) (nodes s)"

definition getEdgeById :: "'es DiagramStore \<Rightarrow> string \<Rightarrow> 'es DiagramEdge option" where
  "getEdgeById s i = find (\<lambda>e. edgeId e = i) (edges s)"

definition getChildNodes :: "DiagramNode list \<Rightarrow> string \<Rightarrow> DiagramNode list" where
  "getChildNodes ns p = filter (\<lambda>n. parentId n = Some p) ns"


text \<open>
  \<open>ids.length === 1 ? ids[0] : (ids.length > 0 ? ids[0] : null)\<close>: the first id,
  or null.
\<close>

definition firstOrNull :: "string list \<Rightarrow> string option" where
  "firstOrNull ids = (case ids of [] \<Rightarrow> None | i # _ \<Rightarrow> Some i)"

definition setSelectedNode :: "string option \<Rightarrow> 'es DiagramStore \<Rightarrow> 'es DiagramStore" where
  "setSelectedNode i s =
     s\<lparr>selectedNodeId := i,
       selectedNodeIds := (case i of None \<Rightarrow> [] | Some j \<Rightarrow> if j \<noteq> [] then [j] else [])\<rparr>"

definition setSelectedNodes :: "string list \<Rightarrow> 'es DiagramStore \<Rightarrow> 'es DiagramStore" where
  "setSelectedNodes ids s = s\<lparr>selectedNodeIds := ids, selectedNodeId := firstOrNull ids\<rparr>"

definition toggleNodeSelection :: "string \<Rightarrow> 'es DiagramStore \<Rightarrow> 'es DiagramStore" where
  "toggleNodeSelection i s =
     (let newIds = (if i \<in> set (selectedNodeIds s)
                    then filter (\<lambda>nid. nid \<noteq> i) (selectedNodeIds s)
                    else selectedNodeIds s @ [i])
      in s\<lparr>selectedNodeIds := newIds, selectedNodeId := firstOrNull newIds\<rparr>)"

text \<open>\<open>[...new Set(xs)]\<close> keeps the first occurrence of each element.\<close>

definition uniq :: "'a list \<Rightarrow> 'a list" where
  "uniq zs = rev (remdups (rev zs))"

definition addToSelection :: "string list \<Rightarrow> 'es DiagramStore \<Rightarrow> 'es DiagramStore" where
  "addToSelection ids s =
     (let newIds = uniq (selectedNodeIds s @ ids)
      in s\<lparr>selectedNodeIds := newIds, selectedNodeId := firstOrNull newIds\<rparr>)"

definition clearSelection :: "'es DiagramStore \<Rightarrow> 'es DiagramStore" where
  "clearSelection s = s\<lparr>selectedNodeId := None, selectedNodeIds := []\<rparr>"

definition setSelectedEdge :: "string option \<Rightarrow> 'es DiagramStore \<Rightarrow> 'es DiagramStore" where
  "setSelectedEdge i s = s\<lparr>selectedEdgeId := i, selectedNodeId := None, selectedNodeIds := []\<rparr>"

subsection \<open>History\<close>

text \<open>\<open>xs.slice(0, e)\<close>; a negative end counts from the end of the array.\<close>

definition slice0 :: "int \<Rightarrow> 'a list \<Rightarrow> 'a list" where
  "slice0 e zs = (if e < 0 then take (nat (int (length zs) + e)) zs else take (nat e) zs)"

definition snapshot :: "'es DiagramStore \<Rightarrow> 'es HistoryState" where
  "snapshot s = \<lparr>snapNodes = nodes s, snapEdges = edges s\<rparr>"

text \<open>
  \<open>JSON.parse(JSON.stringify(v))\<close> copies the value; values here are immutable, so the
  copy is the value. \<open>saveToLocalStorage\<close> writes outside the store and is left out.
\<close>

definition saveToHistory :: "'es DiagramStore \<Rightarrow> 'es DiagramStore" where
  "saveToHistory s =
     (let pushed = slice0 (historyIndex s + 1) (history s) @ [snapshot s];
          newHistory = (if length pushed > 50 then tl pushed else pushed)
      in s\<lparr>history := newHistory, historyIndex := int (length newHistory) - 1\<rparr>)"

definition undo :: "'es DiagramStore \<Rightarrow> 'es outcome" where
  "undo s =
     (if historyIndex s > 0 then
        (if nat (historyIndex s - 1) < length (history s) then
           (let prevState = history s ! nat (historyIndex s - 1)
            in Inr (s\<lparr>nodes := snapNodes prevState, edges := snapEdges prevState,
                     historyIndex := historyIndex s - 1\<rparr>))
         else Inl (TypeError, s))
      else Inr s)"

definition redo :: "'es DiagramStore \<Rightarrow> 'es outcome" where
  "redo s =
     (if historyIndex s < int (length (history s)) - 1 then
        (if 0 \<le> historyIndex s + 1 then
           (let nextState = history s ! nat (historyIndex s + 1)
            in Inr (s\<lparr>nodes := snapNodes nextState, edges := snapEdges nextState,
                     historyIndex := historyIndex s + 1\<rparr>))
         else Inl (TypeError, s))
      else Inr s)"

subsection \<open>Adding nodes\<close>

definition appendNode :: "'es \<Rightarrow> DiagramNode \<Rightarrow> 'es DiagramStore \<Rightarrow> 'es DiagramStore" where
  "appendNode des n s =
     s\<lparr>nodes := nodes s @ [n], edges := deriveEdges des (nodes s @ [n]),
       selectedNodeId := Some (nodeId n)\<rparr>"

definition addRootNode :: "'es \<Rightarrow> string \<Rightarrow> 'es DiagramStore \<Rightarrow> 'es DiagramStore" where
  "addRootNode des uuid s =
     (let s1 = saveToHistory s;
          n = (createNode uuid None ''Root Node'' DEFAULT_NODE_STYLE
                 DEFAULT_TEXT_STYLE DEFAULT_BOX_STYLE)
              \<lparr>position := \<lparr>pos_x = 400, pos_y = 50\<rparr>\<rparr>
      in appendNode des n s1)"

definition addChildNode ::
  "'es \<Rightarrow> string \<Rightarrow> string \<Rightarrow> 'es DiagramStore \<Rightarrow> 'es DiagramStore" where
  "addChildNode des uuid pid s =
     (let s1 = saveToHistory s in
      case getNodeById s1 pid of
        None \<Rightarrow> s1
      | Some parent \<Rightarrow>
          (let n = (createNode uuid (Some pid) ''Child Node'' (style parent)
                      DEFAULT_TEXT_STYLE DEFAULT_BOX_STYLE)
                   \<lparr>position := \<lparr>pos_x = pos_x (position parent),
                                 pos_y = jsAdd (pos_y (position parent)) 120\<rparr>\<rparr>
           in appendNode des n s1))"

definition addSiblingNode ::
  "'es \<Rightarrow> string \<Rightarrow> string \<Rightarrow> 'es DiagramStore \<Rightarrow> 'es DiagramStore" where
  "addSiblingNode des uuid sid s =
     (let s1 = saveToHistory s in
      case getNodeById s1 sid of
        None \<Rightarrow> s1
      | Some sibling \<Rightarrow>
          (let n = (createNode uuid (parentId sibling) ''Sibling Node'' (style sibling)
                      DEFAULT_TEXT_STYLE DEFAULT_BOX_STYLE)
                   \<lparr>position := \<lparr>pos_x = jsAdd (pos_x (position sibling)) 180,
                                 pos_y = pos_y (position sibling)\<rparr>\<rparr>
           in appendNode des n s1))"

subsection \<open>Updating nodes and edges\<close>

definition updateNode :: "string \<Rightarrow> NodeUpdates \<Rightarrow> 'es DiagramStore \<Rightarrow> 'es DiagramStore" where
  "updateNode i u s =
     (let s1 = saveToHistory s
      in s1\<lparr>nodes := map (\<lambda>n. if nodeId n = i then mergeNode n u else n) (nodes s1)\<rparr>)"

definition updateSelectedNodes :: "NodeUpdates \<Rightarrow> 'es DiagramStore \<Rightarrow> 'es DiagramStore" where
  "updateSelectedNodes u s =
     (if selectedNodeIds s = [] then s
      else (let s1 = saveToHistory s
            in s1\<lparr>nodes := map (\<lambda>n. if nodeId n \<in> set (selectedNodeIds s)
                                       then mergeNode n u else n) (nodes s1)\<rparr>))"

definition moveSelectedNodes :: "number \<Rightarrow> number \<Rightarrow> 'es DiagramStore \<Rightarrow> 'es DiagramStore" where
  "moveSelectedNodes deltaX deltaY s =
     (if selectedNodeIds s = [] then s
      else s\<lparr>nodes := map (\<lambda>n. if nodeId n \<in> set (selectedNodeIds s)
                                then n\<lparr>position := \<lparr>pos_x = jsAdd (pos_x (position n)) deltaX,
                                                    pos_y = jsAdd (pos_y (position n)) deltaY\<rparr>\<rparr>
                                else n) (nodes s)\<rparr>)"

definition setNodePositions ::
  "(string \<times> number \<times> number) list \<Rightarrow> 'es DiagramStore \<Rightarrow> 'es DiagramStore" where
  "setNodePositions positions s =
     s\<lparr>nodes := map (\<lambda>n. case find (\<lambda>p. fst p = nodeId n) positions of
                            None \<Rightarrow> n
                          | Some (_, px, py) \<Rightarrow> n\<lparr>position := \<lparr>pos_x = px, pos_y = py\<rparr>\<rparr>)
                     (nodes s)\<rparr>"

definition setDiagramName :: "string \<Rightarrow> 'es DiagramStore \<Rightarrow> 'es DiagramStore" where
  "setDiagramName nm s = s\<lparr>diagramName := nm\<rparr>"

definition updateEdge :: "string \<Rightarrow> 'es EdgeUpdates \<Rightarrow> 'es DiagramStore \<Rightarrow> 'es DiagramStore" where
  "updateEdge i u s =
     (let s1 = saveToHistory s
      in s1\<lparr>edges := map (\<lambda>e. if edgeId e = i then mergeEdge e u else e) (edges s1)\<rparr>)"

definition deleteEdge :: "string \<Rightarrow> 'es DiagramStore \<Rightarrow> 'es DiagramStore" where
  "deleteEdge i s =
     (let s1 = saveToHistory s in
      case find (\<lambda>e. edgeId e = i) (edges s1) of
        None \<Rightarrow> s1
      | Some edge \<Rightarrow>
          s1\<lparr>nodes := map (\<lambda>n. if nodeId n = target edge then n\<lparr>parentId := None\<rparr> else n)
                          (nodes s1),
             edges := filter (\<lambda>e. edgeId e \<noteq> i) (edges s1),
             selectedEdgeId := None\<rparr>)"

subsection \<open>Deleting nodes\<close>

text \<open>
  \<open>collectDescendants\<close> adds the id to the set \<open>nodesToDelete\<close> and calls itself on
  every child, without a visited check: on a cycle of parent links it recurses until
  the call stack overflows. The first argument is the depth of call stack that is
  left; \<open>None\<close> is the overflow.
\<close>

fun collectDescendants ::
  "nat \<Rightarrow> DiagramNode list \<Rightarrow> string \<Rightarrow> string set \<Rightarrow> string set option" where
  "collectDescendants 0 ns i acc = None"
| "collectDescendants (Suc k) ns i acc =
     fold (\<lambda>child r. case r of None \<Rightarrow> None
                               | Some acc' \<Rightarrow> collectDescendants k ns (nodeId child) acc')
          (getChildNodes ns i) (Some (insert i acc))"

text \<open>\<open>selectedNodeIds.forEach((id) => collectDescendants(id))\<close>.\<close>

definition collectAll :: "nat \<Rightarrow> DiagramNode list \<Rightarrow> string list \<Rightarrow> string set option" where
  "collectAll k ns ids =
     fold (\<lambda>i r. case r of None \<Rightarrow> None | Some acc \<Rightarrow> collectDescendants k ns i acc)
          ids (Some {})"

text \<open>
  \<open>state.selectedNodeId && nodesToDelete.has(state.selectedNodeId) ? null :
  state.selectedNodeId\<close>: null and the empty string are falsy and are kept.
\<close>

definition keepSelected :: "string set \<Rightarrow> string option \<Rightarrow> string option" where
  "keepSelected del sel =
     (case sel of None \<Rightarrow> None
      | Some i \<Rightarrow> if i \<noteq> [] \<and> i \<in> del then None else Some i)"

definition deleteNode :: "'es \<Rightarrow> nat \<Rightarrow> string \<Rightarrow> 'es DiagramStore \<Rightarrow> 'es outcome" where
  "deleteNode des depth i s =
     (let s1 = saveToHistory s in
      case collectDescendants depth (nodes s1) i {} of
        None \<Rightarrow> Inl (RangeError, s1)
      | Some nodesToDelete \<Rightarrow>
          (let newNodes = filter (\<lambda>n. nodeId n \<notin> nodesToDelete) (nodes s1)
           in Inr (s1\<lparr>nodes := newNodes, edges := deriveEdges des newNodes,
                      selectedNodeId := keepSelected nodesToDelete (selectedNodeId s1),
                      selectedNodeIds :=
                        filter (\<lambda>nid. nid \<notin> nodesToDelete) (selectedNodeIds s1)\<rparr>)))"

definition deleteSelectedNodes :: "'es \<Rightarrow> nat \<Rightarrow> 'es DiagramStore \<Rightarrow> 'es outcome" where
  "deleteSelectedNodes des depth s =
     (if selectedNodeIds s = [] then Inr s
      else (let s1 = saveToHistory s in
            case collectAll depth (nodes s1) (selectedNodeIds s) of
              None \<Rightarrow> Inl (RangeError, s1)
            | Some nodesToDelete \<Rightarrow>
                (let newNodes = filter (\<lambda>n. nodeId n \<notin> nodesToDelete) (nodes s1)
                 in Inr (s1\<lparr>nodes := newNodes, edges := deriveEdges des newNodes,
                            selectedNodeId := None, selectedNodeIds := []\<rparr>))))"

subsection \<open>Loading and clearing\<close>

definition loadDiagram :: "'es DiagramData \<Rightarrow> 'es DiagramStore \<Rightarrow> 'es DiagramStore" where
  "loadDiagram d s =
     s\<lparr>nodes := dataNodes d, edges := dataEdges d, diagramName := name (settings d),
       selectedNodeId := None, history := [], historyIndex := - 1\<rparr>"

definition clearDiagram :: "'es DiagramStore \<Rightarrow> 'es DiagramStore" where
  "clearDiagram s = initialStore"

subsection \<open>The actions of the store, as one step function\<close>

datatype 'es action =
    SetSelectedNode "string option"
  | SetSelectedNodes "string list"
  | ToggleNodeSelection string
  | AddToSelection "string list"
  | ClearSelection
  | AddRootNode string
  | AddChildNode string string
  | AddSiblingNode string string
  | UpdateNode string NodeUpdates
  | UpdateSelectedNodes NodeUpdates
  | DeleteNode string
  | DeleteSelectedNodes
  | MoveSelectedNodes number number
  | SetSelectedEdge "string option"
  | UpdateEdge string "'es EdgeUpdates"
  | DeleteEdge string
  | SetNodePositions "(string \<times> number \<times> number) list"
  | SetDiagramName string
  | Undo
  | Redo
  | SaveToHistory
  | LoadDiagram "'es DiagramData"
  | ClearDiagram

text \<open>
  \<open>AddRootNode uuid\<close>, \<open>AddChildNode uuid parentId\<close> and \<open>AddSiblingNode uuid siblingId\<close>
  carry the id that \<open>uuidv4()\<close> returns in that call. \<open>depth\<close> is the depth of the
  call stack.
\<close>

fun exec :: "'es \<Rightarrow> nat \<Rightarrow> 'es action \<Rightarrow> 'es DiagramStore \<Rightarrow> 'es outcome" where
  "exec des depth (SetSelectedNode i) s = Inr (setSelectedNode i s)"
| "exec des depth (SetSelectedNodes ids) s = Inr (setSelectedNodes ids s)"
| "exec des depth (ToggleNodeSelection i) s = Inr (toggleNodeSelection i s)"
| "exec des depth (AddToSelection ids) s = Inr (addToSelection ids s)"
| "exec des depth ClearSelection s = Inr (clearSelection s)"
| "exec des depth (AddRootNode uuid) s = Inr (addRootNode des uuid s)"
| "exec des depth (AddChildNode uuid pid) s = Inr (addChildNode des uuid pid s)"
| "exec des depth (AddSiblingNode uuid sid) s = Inr (addSiblingNode des uuid sid s)"
| "exec des depth (UpdateNode i u) s = Inr (updateNode i u s)"
| "exec des depth (UpdateSelectedNodes u) s = Inr (updateSelectedNodes u s)"
| "exec des depth (DeleteNode i) s = deleteNode des depth i s"
| "exec des depth DeleteSelectedNodes s = deleteSelectedNodes des depth s"
| "exec des depth (MoveSelectedNodes dx dy) s = Inr (moveSelectedNodes dx dy s)"
| "exec des depth (SetSelectedEdge i) s = Inr (setSelectedEdge i s)"
| "exec des depth (UpdateEdge i u) s = Inr (updateEdge i u s)"
| "exec des depth (DeleteEdge i) s = Inr (deleteEdge i s)"
| "exec des depth (SetNodePositions ps) s = Inr (setNodePositions ps s)"
| "exec des depth (SetDiagramName nm) s = Inr (setDiagramName nm s)"
| "exec des depth Undo s = undo s"
| "exec des depth Redo s = redo s"
| "exec des depth SaveToHistory s = Inr (saveToHistory s)"
| "exec des depth (LoadDiagram d) s = Inr (loadDiagram d s)"
| "exec des depth ClearDiagram s = Inr (clearDiagram s)"

text \<open>A sequence of calls; a call that throws leaves its store to the next call.\<close>

definition run :: "'es \<Rightarrow> nat \<Rightarrow> 'es action list \<Rightarrow> 'es DiagramStore \<Rightarrow> 'es DiagramStore" where
  "run des depth acts s = fold (\<lambda>a st. after (exec des depth a st)) acts s"

text \<open>
  The calls that push a snapshot: every editing action, except the two batch
  actions when nothing is selected (they return before \<open>saveToHistory\<close>).
\<close>

fun commitsEdit :: "'es action \<Rightarrow> 'es DiagramStore \<Rightarrow> bool" where
  "commitsEdit (AddRootNode uuid) s = True"
| "commitsEdit (AddChildNode uuid pid) s = True"
| "commitsEdit (AddSiblingNode uuid sid) s = True"
| "commitsEdit (UpdateNode i u) s = True"
| "commitsEdit (UpdateSelectedNodes u) s = (selectedNodeIds s \<noteq> [])"
| "commitsEdit (DeleteNode i) s = True"
| "commitsEdit DeleteSelectedNodes s = (selectedNodeIds s \<noteq> [])"
| "commitsEdit (UpdateEdge i u) s = True"
| "commitsEdit (DeleteEdge i) s = True"
| "commitsEdit _ s = False"

section \<open>The connector routers (components/SmartEdge.tsx, two versions)\<close>










subsection \<open>First version: generateSmartPath\<close>








subsection \<open>Second version: generateOrgChartPath\<close>





section \<open>What the specification says of the node list\<close>

text \<open>The stored edges are the ones derived from the stored nodes.\<close>

definition edgesDerived :: "'es \<Rightarrow> 'es DiagramStore \<Rightarrow> bool" where
  "edgesDerived des s \<longleftrightarrow> edges s = deriveEdges des (nodes s)"




section \<open>Example diagrams\<close>

text \<open>A root; a root with one child; the latter after one \<open>undo\<close>.\<close>

definition exampleOne :: "unit DiagramStore" where
  "exampleOne = addRootNode () ''r1'' initialStore"

definition exampleTwo :: "unit DiagramStore" where
  "exampleTwo = addChildNode () ''c1'' ''r1'' exampleOne"

definition exampleUndone :: "unit DiagramStore" where
  "exampleUndone = after (undo exampleTwo)"

text \<open>A store whose history is full, with the cursor on the newest snapshot.\<close>

definition exampleFull :: "unit DiagramStore" where
  "exampleFull = initialStore\<lparr>history := replicate 50 \<lparr>snapNodes = [], snapEdges = []\<rparr>,
                              historyIndex := 49\<rparr>"

text \<open>The root of \<open>exampleOne\<close> after the inspector gave it a box style of its own.\<close>

definition dashedBox :: BoxStyle where
  "dashedBox =
     \<lparr>borderWidth = 4, borderStyle = dashed, borderRadius = radius_lg, shadow = shadow_none\<rparr>"

definition noUpdates :: NodeUpdates where
  "noUpdates =
     \<lparr>upd_id = None, upd_parentId = None, upd_title = None, upd_subtitle = None,
      upd_badge = None, upd_badgeConfig = None, upd_style = None, upd_textStyle = None,
      upd_boxStyle = None, upd_width = None, upd_height = None, upd_position = None\<rparr>"

definition exampleStyled :: "unit DiagramStore" where
  "exampleStyled = updateNode ''r1'' (noUpdates\<lparr>upd_boxStyle := Some (Some dashedBox)\<rparr>) exampleOne"



text \<open>
  Two trees: a, its child ab and grandchild abc; and the root d. The nodes abc and d
  are selected.
\<close>

definition exampleTree :: "unit DiagramStore" where
  "exampleTree =
     run () 8 [AddRootNode ''a'', AddChildNode ''ab'' ''a'', AddChildNode ''abc'' ''ab'',
               AddRootNode ''d'', SetSelectedNodes [''abc'', ''d'']] initialStore"

text \<open>Two roots, and the update that makes the second the child of the first.\<close>

definition exampleRoots :: "unit DiagramStore" where
  "exampleRoots = run () 8 [AddRootNode ''a'', AddRootNode ''b''] initialStore"

definition reparentUpdate :: NodeUpdates where
  "reparentUpdate = noUpdates\<lparr>upd_parentId := Some (Some ''a'')\<rparr>"

definition titleUpdate :: NodeUpdates where
  "titleUpdate = noUpdates\<lparr>upd_title := Some ''Renamed''\<rparr>"

definition sourceUpdate :: "unit EdgeUpdates" where
  "sourceUpdate =
     \<lparr>upd_edgeId = None, upd_source = Some ''zz'', upd_target = None, upd_edgeType = None,
      upd_edgeStyle = None\<rparr>"



section \<open>Rounding to doubles\<close>






text \<open>
  Rounding at work: 0.1 + 0.2 is not 0.3, and above \<open>2^53\<close> odd integers are lost,
  ties going to the even neighbour.
\<close>

lemma rounding_examples:
  "jsAdd (toDouble (1 / 10)) (toDouble (2 / 10)) \<noteq> toDouble (3 / 10)"
  "jsAdd (2 ^ 53) 1 = 2 ^ 53" "jsAdd (2 ^ 53) 3 = 2 ^ 53 + 4"
  "jsMul 120 (toDouble (3 / 10)) = 36" "jsMul 120 (toDouble (4 / 10)) = 48"
  by code_simp+


section \<open>Undo and redo\<close>

lemmas history_defs = saveToHistory_def slice0_def snapshot_def undo_def redo_def
lemmas add_defs = addRootNode_def addChildNode_def addSiblingNode_def appendNode_def
  createNode_def getNodeById_def deriveEdges_def edgeOf_def
lemmas example_defs = exampleOne_def exampleTwo_def exampleUndone_def exampleStyled_def
  initialStore_def noUpdates_def dashedBox_def updateNode_def mergeNode_def orElse_def

lemma history_saveToHistory:
  "history (saveToHistory s) =
     (if length (slice0 (historyIndex s + 1) (history s)) \<ge> 50
      then tl (slice0 (historyIndex s + 1) (history s) @ [snapshot s])
      else slice0 (historyIndex s + 1) (history s) @ [snapshot s])"
  by (simp add: saveToHistory_def Let_def)

lemma historyIndex_saveToHistory:
  "historyIndex (saveToHistory s) = int (length (history (saveToHistory s))) - 1"
  by (simp add: saveToHistory_def Let_def)

lemma frame_saveToHistory:
  "nodes (saveToHistory s) = nodes s" "edges (saveToHistory s) = edges s"
  "selectedNodeId (saveToHistory s) = selectedNodeId s"
  "selectedNodeIds (saveToHistory s) = selectedNodeIds s"
  "selectedEdgeId (saveToHistory s) = selectedEdgeId s"
  by (simp_all add: saveToHistory_def Let_def)

text \<open>
  C10. \<open>undo\<close> with the cursor at or before the oldest snapshot (\<open>historyIndex \<le> 0\<close>,
  which covers the empty history) and \<open>redo\<close> with the cursor on the newest snapshot
  return the store they were given: no field changes.
\<close>

theorem undo_redo_noop_at_ends:
  "(historyIndex s \<le> 0 \<longrightarrow> undo s = Inr s)
   \<and> (historyIndex s = int (length (history s)) - 1 \<longrightarrow> redo s = Inr s)"
  by (simp add: undo_def redo_def)

text \<open>After one edit the cursor is on the only snapshot: both calls do nothing.\<close>

theorem undo_redo_noop_at_ends_witness:
  "historyIndex exampleOne \<le> 0 \<and> undo exampleOne = Inr exampleOne
   \<and> historyIndex exampleOne = int (length (history exampleOne)) - 1
   \<and> redo exampleOne = Inr exampleOne"
proof -
  have a: "historyIndex exampleOne \<le> 0"
    by (simp add: example_defs add_defs history_defs)
  have b: "historyIndex exampleOne = int (length (history exampleOne)) - 1"
    by (simp add: example_defs add_defs history_defs)
  from undo_redo_noop_at_ends [of exampleOne] a b show ?thesis by blast
qed

text \<open>
  C2. The round trip fails on the code. \<open>saveToHistory\<close> runs before the edit and
  stores the state the edit starts from, and \<open>undo\<close> steps to the snapshot before the
  cursor. After one edit of the empty store \<open>undo\<close> changes nothing, so the node stays.
  After two edits two calls of \<open>undo\<close> do reach the empty diagram, but two calls of
  \<open>redo\<close> then stop at the state before the second edit: the state after it was never
  stored.
\<close>

theorem undo_redo_round_trip_fails:
  "undo exampleOne = Inr exampleOne
   \<and> nodes exampleOne \<noteq> nodes (initialStore :: unit DiagramStore)
   \<and> nodes (after (undo (after (undo exampleTwo)))) = nodes (initialStore :: unit DiagramStore)
   \<and> nodes (after (redo (after (redo (after (undo (after (undo exampleTwo))))))))
       = nodes exampleOne
   \<and> nodes exampleOne \<noteq> nodes exampleTwo"
  by (simp add: example_defs add_defs history_defs after_def)

section \<open>Selection\<close>



section \<open>Adding nodes\<close>

text \<open>
  C4. A call with an id that names nothing is not a no-op on the code: the guard
  comes after \<open>saveToHistory\<close>, so the call has already pushed a snapshot and moved
  the cursor. Here \<open>addChildNode\<close>, \<open>addSiblingNode\<close> and \<open>deleteEdge\<close> with an
  unknown id, on the empty store: nodes, edges and selection stay, the history does
  not.
\<close>

theorem unknown_id_pushes_snapshot:
  "history (initialStore :: unit DiagramStore) = []
   \<and> historyIndex (initialStore :: unit DiagramStore) = - 1
   \<and> addChildNode () ''u1'' ''missing'' initialStore
       = initialStore\<lparr>history := [\<lparr>snapNodes = [], snapEdges = []\<rparr>], historyIndex := 0\<rparr>
   \<and> addSiblingNode () ''u1'' ''missing'' initialStore
       = initialStore\<lparr>history := [\<lparr>snapNodes = [], snapEdges = []\<rparr>], historyIndex := 0\<rparr>
   \<and> deleteEdge ''missing'' (initialStore :: unit DiagramStore)
       = initialStore\<lparr>history := [\<lparr>snapNodes = [], snapEdges = []\<rparr>], historyIndex := 0\<rparr>"
  by (simp add: example_defs add_defs history_defs deleteEdge_def)




section \<open>The history under edits\<close>

lemma history_deleteNode:
  "history (after (deleteNode des depth i s)) = history (saveToHistory s)
   \<and> historyIndex (after (deleteNode des depth i s)) = historyIndex (saveToHistory s)"
  by (simp add: deleteNode_def after_def Let_def split: option.split)

lemma history_deleteSelectedNodes:
  "selectedNodeIds s \<noteq> [] \<Longrightarrow>
   history (after (deleteSelectedNodes des depth s)) = history (saveToHistory s)
   \<and> historyIndex (after (deleteSelectedNodes des depth s)) = historyIndex (saveToHistory s)"
  by (simp add: deleteSelectedNodes_def after_def Let_def split: option.split)

text \<open>Every committing edit leaves the history that \<open>saveToHistory\<close> built.\<close>

lemma history_after_edit:
  assumes "commitsEdit a s"
  shows "history (after (exec des depth a s)) = history (saveToHistory s)
         \<and> historyIndex (after (exec des depth a s)) = historyIndex (saveToHistory s)"
proof (cases a)
  case (DeleteNode i)
  then show ?thesis by (simp add: history_deleteNode)
next
  case DeleteSelectedNodes
  with assms show ?thesis by (simp add: history_deleteSelectedNodes)
next
  case (UpdateSelectedNodes u)
  with assms show ?thesis by (simp add: updateSelectedNodes_def after_def Let_def)
qed (use assms in \<open>simp_all add: after_def addRootNode_def addChildNode_def addSiblingNode_def
      appendNode_def updateNode_def updateEdge_def deleteEdge_def Let_def
      split: option.split\<close>)

lemma length_slice0: "length (slice0 e zs) \<le> length zs"
  unfolding slice0_def by (cases "e < 0") simp_all

lemma length_saveToHistory:
  "length (history s) \<le> 50 \<Longrightarrow> length (history (saveToHistory s)) \<le> 50"
  using length_slice0 [of "historyIndex s + 1" "history s"]
  by (simp add: history_saveToHistory)

text \<open>Any other call keeps the history, empties it, or is \<open>saveToHistory\<close> itself.\<close>

lemma history_exec_other:
  "\<not> commitsEdit a s \<Longrightarrow>
   history (after (exec des depth a s)) = history s
   \<or> history (after (exec des depth a s)) = []
   \<or> history (after (exec des depth a s)) = history (saveToHistory s)"
  by (cases a)
     (simp_all add: after_def setSelectedNode_def setSelectedNodes_def toggleNodeSelection_def
       addToSelection_def clearSelection_def moveSelectedNodes_def setSelectedEdge_def
       setNodePositions_def setDiagramName_def undo_def redo_def loadDiagram_def
       clearDiagram_def initialStore_def updateSelectedNodes_def deleteSelectedNodes_def Let_def)

lemma length_history_exec:
  assumes "length (history s) \<le> 50"
  shows "length (history (after (exec des depth a s))) \<le> 50"
proof (cases "commitsEdit a s")
  case True
  then show ?thesis using assms by (simp add: history_after_edit length_saveToHistory)
next
  case False
  from history_exec_other [OF False, of des depth] assms length_saveToHistory [OF assms]
  show ?thesis by auto
qed

lemma length_history_run:
  "length (history s) \<le> 50 \<Longrightarrow> length (history (run des depth acts s)) \<le> 50"
proof (induction acts arbitrary: s)
  case Nil
  then show ?case by (simp add: run_def)
next
  case (Cons a acts)
  have "run des depth (a # acts) s = run des depth acts (after (exec des depth a s))"
    by (simp add: run_def)
  with Cons.IH [OF length_history_exec [OF Cons.prems]] show ?case by simp
qed

text \<open>
  C9. Whatever calls are made on the empty store, in any order and whether or not one
  of them throws, the history holds at most 50 snapshots. A committing edit on a full
  history whose cursor is on the newest snapshot drops the oldest snapshot, appends
  its own, and leaves the cursor on that newest entry (index 49 of 50).
\<close>

theorem history_capped_at_50:
  "length (history (run des depth acts initialStore)) \<le> 50
   \<and> (commitsEdit a s \<and> length (history s) = 50 \<and> historyIndex s = 49 \<longrightarrow>
        history (after (exec des depth a s)) = tl (history s) @ [snapshot s]
        \<and> length (history (after (exec des depth a s))) = 50
        \<and> historyIndex (after (exec des depth a s)) = 49)"
proof -
  have "length (history (run des depth acts initialStore)) \<le> 50"
    by (rule length_history_run) (simp add: initialStore_def)
  moreover have "history (after (exec des depth a s)) = tl (history s) @ [snapshot s]
        \<and> length (history (after (exec des depth a s))) = 50
        \<and> historyIndex (after (exec des depth a s)) = 49"
    if "commitsEdit a s" "length (history s) = 50" "historyIndex s = 49"
  proof -
    from that(2) have ne: "history s \<noteq> []" by auto
    have h: "history (saveToHistory s) = tl (history s) @ [snapshot s]"
      using that(2,3) ne by (simp add: history_saveToHistory slice0_def)
    with that(2) ne have "length (history (saveToHistory s)) = 50" by simp
    with h show ?thesis
      using history_after_edit [OF that(1), of des depth] historyIndex_saveToHistory [of s]
      by simp
  qed
  ultimately show ?thesis by blast
qed

theorem history_capped_at_50_witness:
  "length (history (run () 8
      [AddRootNode ''r1'', AddChildNode ''c1'' ''r1'', Undo, DeleteNode ''r1'']
      initialStore)) \<le> 50
   \<and> commitsEdit (AddRootNode ''r2'' :: unit action) exampleFull
   \<and> length (history exampleFull) = 50 \<and> historyIndex exampleFull = 49
   \<and> history (after (exec () 8 (AddRootNode ''r2'') exampleFull))
       = tl (history exampleFull) @ [snapshot exampleFull]
   \<and> historyIndex (after (exec () 8 (AddRootNode ''r2'') exampleFull)) = 49"
proof -
  have a: "commitsEdit (AddRootNode ''r2'' :: unit action) exampleFull" by simp
  have b: "length (history exampleFull) = 50 \<and> historyIndex exampleFull = 49"
    by (simp add: exampleFull_def)
  from history_capped_at_50 [of "()" 8
      "[AddRootNode ''r1'', AddChildNode ''c1'' ''r1'', Undo, DeleteNode ''r1'']"
      "AddRootNode ''r2''" exampleFull] a b
  show ?thesis by blast
qed

text \<open>
  C8. Let \<open>undo\<close> have moved the cursor back: it is on a snapshot (\<open>0 \<le> historyIndex\<close>)
  that is not the newest. The next committing edit keeps the snapshots up to the
  cursor, drops every later one and appends the snapshot of the state it starts from
  (and drops the oldest one if that makes 51). The cursor is then on the last entry,
  so the dropped snapshots are out of reach and \<open>redo\<close> right after the edit returns
  the store unchanged.
\<close>

theorem edit_after_undo_truncates:
  assumes "commitsEdit a s"
    and "0 \<le> historyIndex s"
    and "historyIndex s < int (length (history s)) - 1"
  shows "history (after (exec des depth a s)) =
           (if nat (historyIndex s) + 1 \<ge> 50
            then tl (take (nat (historyIndex s) + 1) (history s) @ [snapshot s])
            else take (nat (historyIndex s) + 1) (history s) @ [snapshot s])
         \<and> historyIndex (after (exec des depth a s))
             = int (length (history (after (exec des depth a s)))) - 1
         \<and> redo (after (exec des depth a s)) = Inr (after (exec des depth a s))"
proof -
  let ?s' = "after (exec des depth a s)"
  have sl: "slice0 (historyIndex s + 1) (history s) = take (nat (historyIndex s) + 1) (history s)"
    using assms(2) by (simp add: slice0_def nat_add_distrib)
  have len: "length (take (nat (historyIndex s) + 1) (history s)) = nat (historyIndex s) + 1"
    using assms(2,3) by simp
  have idx: "historyIndex ?s' = int (length (history ?s')) - 1"
    using history_after_edit [OF assms(1), of des depth] historyIndex_saveToHistory [of s]
    by simp
  have "history ?s' = history (saveToHistory s)"
    using history_after_edit [OF assms(1), of des depth] by simp
  then have "history ?s' =
           (if nat (historyIndex s) + 1 \<ge> 50
            then tl (take (nat (historyIndex s) + 1) (history s) @ [snapshot s])
            else take (nat (historyIndex s) + 1) (history s) @ [snapshot s])"
    unfolding history_saveToHistory sl len by simp
  moreover from idx have "redo ?s' = Inr ?s'" by (simp add: redo_def)
  ultimately show ?thesis using idx by blast
qed

text \<open>
  Two edits and one \<open>undo\<close>: the history holds two snapshots with the cursor on the
  first. The next edit replaces the second snapshot by its own.
\<close>

theorem edit_after_undo_truncates_witness:
  "commitsEdit (AddRootNode ''r2'' :: unit action) exampleUndone
   \<and> 0 \<le> historyIndex exampleUndone
   \<and> historyIndex exampleUndone < int (length (history exampleUndone)) - 1
   \<and> length (history exampleUndone) = 2
   \<and> history (after (exec () 8 (AddRootNode ''r2'') exampleUndone))
       = [hd (history exampleUndone), snapshot exampleUndone]
   \<and> redo (after (exec () 8 (AddRootNode ''r2'') exampleUndone))
       = Inr (after (exec () 8 (AddRootNode ''r2'') exampleUndone))"
proof -
  have a: "commitsEdit (AddRootNode ''r2'' :: unit action) exampleUndone" by simp
  have b: "historyIndex exampleUndone = 0 \<and> length (history exampleUndone) = 2"
    by (simp add: example_defs add_defs history_defs after_def)
  then obtain x y where xy: "history exampleUndone = [x, y]"
    by (cases "history exampleUndone"; cases "tl (history exampleUndone)") auto
  from edit_after_undo_truncates [of "AddRootNode ''r2''" exampleUndone "()" 8] a b xy
  show ?thesis by simp
qed

section \<open>Routing around an obstacle\<close>









section \<open>Cascading delete\<close>













lemmas tree_defs = exampleTree_def run_def after_def initialStore_def setSelectedNodes_def
  firstOrNull_def





section \<open>Edges derived from nodes\<close>

lemma edgesDerived_saveToHistory: "edgesDerived des (saveToHistory s) = edgesDerived des s"
  by (simp add: edgesDerived_def frame_saveToHistory)

lemma edgesDerived_appendNode: "edgesDerived des (appendNode des n s)"
  by (simp add: edgesDerived_def appendNode_def)

lemma edgesDerived_addRootNode: "edgesDerived des (addRootNode des uuid s)"
  by (simp add: addRootNode_def Let_def edgesDerived_appendNode)

lemma edgesDerived_addChildNode:
  "getNodeById s i \<noteq> None \<or> edgesDerived des s \<Longrightarrow> edgesDerived des (addChildNode des uuid i s)"
  by (auto simp: addChildNode_def Let_def edgesDerived_appendNode getNodeById_def
      frame_saveToHistory edgesDerived_saveToHistory split: option.split)

lemma edgesDerived_addSiblingNode:
  "getNodeById s i \<noteq> None \<or> edgesDerived des s \<Longrightarrow> edgesDerived des (addSiblingNode des uuid i s)"
  by (auto simp: addSiblingNode_def Let_def edgesDerived_appendNode getNodeById_def
      frame_saveToHistory edgesDerived_saveToHistory split: option.split)

lemma edgesDerived_deleteNode:
  "deleteNode des depth i s = Inr s' \<Longrightarrow> edgesDerived des s'"
  by (auto simp: deleteNode_def Let_def edgesDerived_def split: option.splits)

lemma edgesDerived_after_deleteNode:
  "edgesDerived des s \<Longrightarrow> edgesDerived des (after (deleteNode des depth i s))"
  by (auto simp: deleteNode_def Let_def edgesDerived_def after_def frame_saveToHistory
      split: option.splits)

lemma edgesDerived_deleteSelectedNodes:
  "selectedNodeIds s \<noteq> [] \<Longrightarrow> deleteSelectedNodes des depth s = Inr s' \<Longrightarrow> edgesDerived des s'"
  by (auto simp: deleteSelectedNodes_def Let_def edgesDerived_def split: option.splits)

lemma edgesDerived_after_deleteSelectedNodes:
  "edgesDerived des s \<Longrightarrow> edgesDerived des (after (deleteSelectedNodes des depth s))"
  by (auto simp: deleteSelectedNodes_def Let_def edgesDerived_def after_def frame_saveToHistory
      split: option.splits)

lemma deriveEdges_map:
  assumes "\<And>n. n \<in> set ns \<Longrightarrow> nodeId (f n) = nodeId n \<and> parentId (f n) = parentId n"
  shows "deriveEdges des (map f ns) = deriveEdges des ns"
  using assms by (induction ns) (simp_all add: deriveEdges_def edgeOf_def)

lemma mergeNode_keeps:
  "upd_id u = None \<Longrightarrow> upd_parentId u = None \<Longrightarrow>
   nodeId (mergeNode n u) = nodeId n \<and> parentId (mergeNode n u) = parentId n"
  by (simp add: mergeNode_def orElse_def)

lemma edgesDerived_updateNode:
  assumes "edgesDerived des s" "upd_id u = None" "upd_parentId u = None"
  shows "edgesDerived des (updateNode i u s)"
proof -
  have "deriveEdges des (map (\<lambda>n. if nodeId n = i then mergeNode n u else n) (nodes s))
        = deriveEdges des (nodes s)"
    by (rule deriveEdges_map) (simp add: mergeNode_keeps assms(2,3))
  with assms(1) show ?thesis
    by (simp add: updateNode_def Let_def edgesDerived_def frame_saveToHistory)
qed

lemma edgesDerived_updateSelectedNodes:
  assumes "edgesDerived des s" "upd_id u = None" "upd_parentId u = None"
  shows "edgesDerived des (updateSelectedNodes u s)"
proof -
  have "deriveEdges des (map (\<lambda>n. if nodeId n \<in> set (selectedNodeIds s) then mergeNode n u else n)
          (nodes s)) = deriveEdges des (nodes s)"
    by (rule deriveEdges_map) (simp add: mergeNode_keeps assms(2,3))
  with assms(1) show ?thesis
    by (simp add: updateSelectedNodes_def Let_def edgesDerived_def frame_saveToHistory)
qed

lemma filter_deriveEdges:
  assumes "\<And>n p. n \<in> set ns \<Longrightarrow> parentId n = Some p \<Longrightarrow>
             (nodeId n = t \<longleftrightarrow> edgeId (edgeOf des p n) = e)"
  shows "filter (\<lambda>x. edgeId x \<noteq> e) (deriveEdges des ns)
         = deriveEdges des (map (\<lambda>n. if nodeId n = t then n\<lparr>parentId := None\<rparr> else n) ns)"
  using assms
proof (induction ns)
  case Nil
  then show ?case by (simp add: deriveEdges_def)
next
  case (Cons n ns)
  have IH: "filter (\<lambda>x. edgeId x \<noteq> e) (deriveEdges des ns)
         = deriveEdges des (map (\<lambda>n. if nodeId n = t then n\<lparr>parentId := None\<rparr> else n) ns)"
    by (rule Cons.IH) (simp add: Cons.prems)
  show ?case
  proof (cases "parentId n")
    case None
    with IH show ?thesis by (simp add: deriveEdges_def)
  next
    case (Some p)
    with Cons.prems [of n p] have "nodeId n = t \<longleftrightarrow> edgeId (edgeOf des p n) = e" by simp
    with IH Some show ?thesis by (auto simp: deriveEdges_def edgeOf_def)
  qed
qed

lemma edgesDerived_deleteEdge:
  assumes inv: "edgesDerived des s"
    and dn: "distinct (map nodeId (nodes s))"
    and de: "distinct (map edgeId (edges s))"
  shows "edgesDerived des (deleteEdge e s)"
proof (cases "find (\<lambda>x. edgeId x = e) (edges s)")
  case None
  with inv show ?thesis
    by (simp add: deleteEdge_def Let_def frame_saveToHistory edgesDerived_def)
next
  case (Some edge)
  then have mem: "edge \<in> set (edges s)" and eid: "edgeId edge = e"
    by (auto simp: find_Some_iff)
  let ?P = "\<lambda>n. parentId n \<noteq> None"
  let ?g = "\<lambda>n. edgeOf des (the (parentId n)) n"
  from inv have ed: "edges s = map ?g (filter ?P (nodes s))"
    by (simp add: edgesDerived_def deriveEdges_def)
  with mem obtain n0 where n0: "n0 \<in> set (nodes s)" "parentId n0 \<noteq> None" "edge = ?g n0"
    by auto
  from de ed have inj: "inj_on (\<lambda>n. edgeId (?g n)) (set (filter ?P (nodes s)))"
    by (simp add: distinct_map comp_def)
  from dn have injn: "inj_on nodeId (set (nodes s))" by (simp add: distinct_map)
  have key: "nodeId n = target edge \<longleftrightarrow> edgeId (edgeOf des p n) = e"
    if "n \<in> set (nodes s)" "parentId n = Some p" for n p
  proof
    assume "nodeId n = target edge"
    with n0(3) have "nodeId n = nodeId n0" by (simp add: edgeOf_def)
    with injn that(1) n0(1) have "n = n0" by (auto dest: inj_onD)
    with that(2) n0(3) eid show "edgeId (edgeOf des p n) = e" by simp
  next
    assume "edgeId (edgeOf des p n) = e"
    with that(2) eid n0(3) have same: "edgeId (?g n) = edgeId (?g n0)" by simp
    have "n \<in> set (filter ?P (nodes s))" "n0 \<in> set (filter ?P (nodes s))"
      using that n0(1,2) by auto
    from inj_onD [OF inj same this] have "n = n0" .
    with n0(3) show "nodeId n = target edge" by (simp add: edgeOf_def)
  qed
  from filter_deriveEdges [of "nodes s" "target edge" des e, OF key] inv Some
  show ?thesis
    by (simp add: deleteEdge_def Let_def frame_saveToHistory edgesDerived_def)
qed

text \<open>
  C1 as stated fails. \<open>updateNode\<close> writes a parent link and leaves the
  edge list as it was: the second root becomes the child of the first and no edge
  appears. \<open>updateEdge\<close> edits a stored edge in place: the edge of the child then names
  a source that is not the child's parent.
\<close>

theorem edges_not_rederived_counterexample:
  "edgesDerived () exampleRoots
   \<and> \<not> edgesDerived () (updateNode ''b'' reparentUpdate exampleRoots)
   \<and> edgesDerived () exampleTwo
   \<and> \<not> edgesDerived () (updateEdge ''edge-r1-c1'' sourceUpdate exampleTwo)"
  by (simp add: edgesDerived_def exampleRoots_def reparentUpdate_def sourceUpdate_def
      run_def after_def updateEdge_def mergeEdge_def example_defs add_defs history_defs)

text \<open>
  C1, amended. \<open>addRootNode\<close>, \<open>addChildNode\<close> and \<open>addSiblingNode\<close> on an existing id,
  \<open>deleteNode\<close> and \<open>deleteSelectedNodes\<close> on a selection that is not empty (when they
  return) store the edges derived from the new node list. The other calls do not
  derive the list; where it was the derived one before the call, it still is after
  \<open>addChildNode\<close> and \<open>addSiblingNode\<close> on an unknown id, after the two delete calls
  however they end, after \<open>updateNode\<close> and \<open>updateSelectedNodes\<close> with updates that set
  neither \<open>id\<close> nor \<open>parentId\<close>, and after \<open>deleteEdge\<close> when the node ids and the
  edge ids are each distinct. \<open>updateEdge\<close> leaves the nodes alone and merges the
  updates into every stored edge with the given id.
\<close>

theorem edges_derived_by_structural_edits:
  "edgesDerived des (addRootNode des uuid s)
   \<and> (getNodeById s i \<noteq> None \<longrightarrow>
        edgesDerived des (addChildNode des uuid i s)
        \<and> edgesDerived des (addSiblingNode des uuid i s))
   \<and> (deleteNode des depth i s = Inr s1 \<longrightarrow> edgesDerived des s1)
   \<and> (selectedNodeIds s \<noteq> [] \<and> deleteSelectedNodes des depth s = Inr s2 \<longrightarrow>
        edgesDerived des s2)
   \<and> (edgesDerived des s \<longrightarrow>
        edgesDerived des (addChildNode des uuid i s)
        \<and> edgesDerived des (addSiblingNode des uuid i s)
        \<and> edgesDerived des (after (deleteNode des depth i s))
        \<and> edgesDerived des (after (deleteSelectedNodes des depth s))
        \<and> (upd_id u = None \<and> upd_parentId u = None \<longrightarrow>
             edgesDerived des (updateNode i u s)
             \<and> edgesDerived des (updateSelectedNodes u s))
        \<and> (distinct (map nodeId (nodes s)) \<and> distinct (map edgeId (edges s)) \<longrightarrow>
             edgesDerived des (deleteEdge e s)))
   \<and> nodes (updateEdge e v s) = nodes s
   \<and> edges (updateEdge e v s)
       = map (\<lambda>x. if edgeId x = e then mergeEdge x v else x) (edges s)"
proof -
  have "nodes (updateEdge e v s) = nodes s"
    and "edges (updateEdge e v s)
       = map (\<lambda>x. if edgeId x = e then mergeEdge x v else x) (edges s)"
    by (simp_all add: updateEdge_def Let_def frame_saveToHistory)
  then show ?thesis
    using edgesDerived_addRootNode [of des uuid s]
      edgesDerived_addChildNode [of s i des uuid]
      edgesDerived_addSiblingNode [of s i des uuid]
      edgesDerived_deleteNode [of des depth i s s1]
      edgesDerived_deleteSelectedNodes [of s des depth s2]
      edgesDerived_after_deleteNode [of des s depth i]
      edgesDerived_after_deleteSelectedNodes [of des s depth]
      edgesDerived_updateNode [of des s u i]
      edgesDerived_updateSelectedNodes [of des s u]
      edgesDerived_deleteEdge [of des s e]
    by (intro conjI impI) (simp_all (no_asm_simp))
qed

text \<open>
  On the example with two trees: a child is added under ab, ab is deleted, the
  selection is deleted, ab is renamed, and the edge from a to ab is detached.
\<close>

theorem edges_derived_by_structural_edits_witness:
  "getNodeById exampleTree ''ab'' \<noteq> None
   \<and> edgesDerived () exampleTree
   \<and> map edgeId (edges exampleTree) = [''edge-a-ab'', ''edge-ab-abc'']
   \<and> selectedNodeIds exampleTree \<noteq> []
   \<and> upd_id titleUpdate = None \<and> upd_parentId titleUpdate = None
   \<and> distinct (map nodeId (nodes exampleTree))
   \<and> deleteNode () 8 ''ab'' exampleTree = Inr (after (deleteNode () 8 ''ab'' exampleTree))
   \<and> deleteSelectedNodes () 8 exampleTree
       = Inr (after (deleteSelectedNodes () 8 exampleTree))
   \<and> edgesDerived () (addChildNode () ''x'' ''ab'' exampleTree)
   \<and> edgesDerived () (after (deleteNode () 8 ''ab'' exampleTree))
   \<and> edgesDerived () (after (deleteSelectedNodes () 8 exampleTree))
   \<and> edgesDerived () (updateNode ''ab'' titleUpdate exampleTree)
   \<and> edgesDerived () (deleteEdge ''edge-a-ab'' exampleTree)"
proof -
  have g: "getNodeById exampleTree ''ab'' \<noteq> None"
    by (simp add: tree_defs add_defs history_defs)
  have inv: "edgesDerived () exampleTree"
    by (simp add: edgesDerived_def tree_defs add_defs history_defs)
  have ids: "map edgeId (edges exampleTree) = [''edge-a-ab'', ''edge-ab-abc'']"
    by (simp add: tree_defs add_defs history_defs)
  have sel: "selectedNodeIds exampleTree \<noteq> []"
    by (simp add: tree_defs add_defs history_defs)
  have u: "upd_id titleUpdate = None \<and> upd_parentId titleUpdate = None"
    by (simp add: titleUpdate_def noUpdates_def)
  have dn: "distinct (map nodeId (nodes exampleTree))"
    by (simp add: tree_defs add_defs history_defs)
  from ids have de: "distinct (map edgeId (edges exampleTree))" by simp
  have r1: "deleteNode () 8 ''ab'' exampleTree
      = Inr (after (deleteNode () 8 ''ab'' exampleTree))"
    by (simp add: deleteNode_def Let_def tree_defs add_defs history_defs getChildNodes_def
        eval_nat_numeral)
  have r2: "deleteSelectedNodes () 8 exampleTree
      = Inr (after (deleteSelectedNodes () 8 exampleTree))"
    by (simp add: deleteSelectedNodes_def collectAll_def Let_def tree_defs add_defs
        history_defs getChildNodes_def eval_nat_numeral)
  from edges_derived_by_structural_edits [of "()" "''x''" exampleTree "''ab''" 8
      "after (deleteNode () 8 ''ab'' exampleTree)"
      "after (deleteSelectedNodes () 8 exampleTree)" titleUpdate "''edge-a-ab''"]
    g inv sel u dn de r1 r2
  have "edgesDerived () (addChildNode () ''x'' ''ab'' exampleTree)
   \<and> edgesDerived () (after (deleteNode () 8 ''ab'' exampleTree))
   \<and> edgesDerived () (after (deleteSelectedNodes () 8 exampleTree))
   \<and> edgesDerived () (updateNode ''ab'' titleUpdate exampleTree)
   \<and> edgesDerived () (deleteEdge ''edge-a-ab'' exampleTree)"
    by simp
  with g inv ids sel u dn r1 r2 show ?thesis by simp
qed

end
